theory Spec2Isabelle
  imports Main "HOL-Library.Word"
begin

section \<open>The libplacebo filter session of video2x (src/libplacebo_filter.cpp)\<close>

text \<open>
  The class \<open>LibplaceboFilter\<close> owns a libavfilter graph with a buffer source (ingress), a
  buffer sink (egress) and a Vulkan device reference. Its member functions are embedded as
  state-passing functions over the session record and a record \<open>world\<close> that holds
  everything outside the class: the frame containers that are allocated, the answers of the
  libav calls, the file system and the log of the external calls made.
\<close>

subsection \<open>Pointers, return codes and library data\<close>

text \<open>A pointer is a 64-bit address. \<open>(AVFrame *)-1\<close> is the address with all bits set.\<close>

type_synonym ptr = "64 word"

definition nullptr :: ptr where
  "nullptr = 0"

definition not_ready :: ptr where
  "not_ready = - 1"

text \<open>
  The error codes come from the C library and from libavutil/error.h: \<open>AVERROR(e)\<close> is
  \<open>-e\<close>, \<open>EAGAIN\<close> is 11 and \<open>ENOMEM\<close> is 12 on Linux, and \<open>AVERROR_EOF\<close> is the negated
  tag of the four characters \<open>E O F space\<close>. Return codes are C \<open>int\<close>s, on which the source
  only tests the sign and equality; they are integers here.
\<close>

definition EAGAIN :: int where
  "EAGAIN = 11"

definition ENOMEM :: int where
  "ENOMEM = 12"

definition AVERROR :: "int \<Rightarrow> int" where
  "AVERROR e = - e"

definition AVERROR_EOF :: int where
  "AVERROR_EOF = - (69 + 79 * 2 ^ 8 + 70 * 2 ^ 16 + 32 * 2 ^ 24)"

record AVRational =
  num :: int
  den :: int

text \<open>
  Of a frame the session touches the presentation timestamp only; \<open>payload\<close> stands for the
  rest of the frame (the picture), which the session never reads.
\<close>

record AVFrame =
  pts :: int
  payload :: nat

text \<open>\<open>av_frame_alloc\<close> hands out a frame with no timestamp: \<open>AV_NOPTS_VALUE\<close> is \<open>INT64_MIN\<close>.\<close>

definition AV_NOPTS_VALUE :: int where
  "AV_NOPTS_VALUE = - (2 ^ 63)"

definition blank_frame :: AVFrame where
  "blank_frame = \<lparr>pts = AV_NOPTS_VALUE, payload = 0\<rparr>"

record AVCodecContext =
  time_base :: AVRational
  codec_id :: nat

type_synonym path = string

subsection \<open>The session\<close>

record LibplaceboFilter =
  filter_graph :: ptr
  buffersrc_ctx :: ptr
  buffersink_ctx :: ptr
  device_ctx :: ptr
  output_width :: int
  output_height :: int
  shader_path :: path
  output_time_base :: AVRational

text \<open>
  The constructor sets the four handles to null and stores the dimensions and the shader
  identifier. It does not initialise \<open>output_time_base\<close>; the value the member holds until
  \<open>init\<close> runs is the parameter \<open>tb0\<close>.
\<close>

definition LibplaceboFilter_new :: "AVRational \<Rightarrow> int \<Rightarrow> int \<Rightarrow> path \<Rightarrow> LibplaceboFilter" where
  "LibplaceboFilter_new tb0 width height sp =
     \<lparr>filter_graph = nullptr, buffersrc_ctx = nullptr, buffersink_ctx = nullptr,
      device_ctx = nullptr, output_width = width, output_height = height,
      shader_path = sp, output_time_base = tb0\<rparr>"

subsection \<open>The world outside the session\<close>

text \<open>Every call that leaves the class is logged, with its arguments.\<close>

datatype call =
    FrameAlloc ptr
  | FrameFree ptr
  | SrcAddFrame ptr ptr
  | SinkGetFrame ptr ptr
  | FilterFree ptr
  | BufferUnref ptr
  | GraphFree ptr
  | IsReadable path
  | FindResource path
  | InitLibplacebo path

text \<open>What the graph builder answers: an error code, or graph, source, sink and device.\<close>

datatype build_result = BuildFailed int | Built ptr ptr ptr ptr

text \<open>
  The libav calls are answered by oracles: the \<open>n\<close>-th call of \<open>av_frame_alloc\<close> returns
  \<open>alloc_oracle n\<close> (null when the allocation fails), the \<open>n\<close>-th call of
  \<open>av_buffersrc_add_frame\<close> returns \<open>src_oracle n\<close>, and the \<open>n\<close>-th call of
  \<open>av_buffersink_get_frame\<close> returns the code \<open>fst (sink_oracle n)\<close> and, when the code is
  not negative, stores the frame \<open>snd (sink_oracle n)\<close> in the container it was given.
  \<open>heap\<close> holds the frame containers that are allocated and not freed.
  \<open>link_time_base c\<close> is \<open>c->inputs[0]->time_base\<close>.
\<close>

record world =
  heap :: "ptr \<rightharpoonup> AVFrame"
  alloc_oracle :: "nat \<Rightarrow> ptr"
  src_oracle :: "nat \<Rightarrow> int"
  sink_oracle :: "nat \<Rightarrow> int \<times> AVFrame"
  n_alloc :: nat
  n_src :: nat
  n_sink :: nat
  link_time_base :: "ptr \<Rightarrow> AVRational"
  readable :: "path \<Rightarrow> bool"
  locator :: "path \<Rightarrow> path option"
  graph_builder :: "AVCodecContext \<Rightarrow> int \<Rightarrow> int \<Rightarrow> path \<Rightarrow> build_result"
  trace :: "call list"

definition log_call :: "call \<Rightarrow> world \<Rightarrow> world" where
  "log_call c w = w\<lparr>trace := trace w @ [c]\<rparr>"

definition av_frame_alloc :: "world \<Rightarrow> ptr \<times> world" where
  "av_frame_alloc w =
     (let p = alloc_oracle w (n_alloc w);
          w1 = log_call (FrameAlloc p) (w\<lparr>n_alloc := Suc (n_alloc w)\<rparr>)
      in if p = nullptr then (nullptr, w1)
         else (p, w1\<lparr>heap := (heap w1)(p \<mapsto> blank_frame)\<rparr>))"

text \<open>\<open>av_frame_free(&p)\<close> releases the container; the source never reads \<open>p\<close> afterwards.\<close>

definition av_frame_free :: "ptr \<Rightarrow> world \<Rightarrow> world" where
  "av_frame_free p w = log_call (FrameFree p) (w\<lparr>heap := (heap w)(p := None)\<rparr>)"

definition av_buffersrc_add_frame :: "ptr \<Rightarrow> ptr \<Rightarrow> world \<Rightarrow> int \<times> world" where
  "av_buffersrc_add_frame ctx frame w =
     (src_oracle w (n_src w), log_call (SrcAddFrame ctx frame) (w\<lparr>n_src := Suc (n_src w)\<rparr>))"

definition av_buffersink_get_frame :: "ptr \<Rightarrow> ptr \<Rightarrow> world \<Rightarrow> int \<times> world" where
  "av_buffersink_get_frame ctx frame w =
     (let (ret, fr) = sink_oracle w (n_sink w);
          w1 = log_call (SinkGetFrame ctx frame) (w\<lparr>n_sink := Suc (n_sink w)\<rparr>)
      in if ret < 0 then (ret, w1)
         else (ret, w1\<lparr>heap := (heap w1)(frame \<mapsto> fr)\<rparr>))"

text \<open>
  Modelled from the spec: the rounding of \<open>av_rescale_q\<close>, a function of libavutil that
  is not under src/. The spec calls the rescale "exact-integer-safe" and does not fix how a
  quotient that is not an integer is rounded; \<open>round_near_inf n d\<close> is \<open>n / d\<close> rounded to
  the nearest integer, halves away from zero, the rounding libavutil documents for
  \<open>av_rescale_q\<close>.
\<close>

definition round_near_inf :: "int \<Rightarrow> int \<Rightarrow> int" where
  "round_near_inf n d =
     (if 0 \<le> n then (n + d div 2) div d else - ((- n + d div 2) div d))"

text \<open>
  Modelled from the spec: \<open>av_rescale_q\<close> is a function of libavutil and not under src/.
  The spec gives it as the linear rational rescale
  \<open>pts' = pts * (srcNum/srcDen) / (dstNum/dstDen)\<close>, that is
  \<open>pts * (srcNum * dstDen) / (dstNum * srcDen)\<close>. Timestamps are mathematical integers
  here: the spec says nothing about the 64-bit range.
\<close>

definition av_rescale_q :: "int \<Rightarrow> AVRational \<Rightarrow> AVRational \<Rightarrow> int" where
  "av_rescale_q a bq cq = round_near_inf (a * (num bq * den cq)) (num cq * den bq)"

text \<open>\<open>frame->pts = av_rescale_q(frame->pts, bq, cq)\<close> on an allocated container.\<close>

definition rescale_frame :: "AVRational \<Rightarrow> AVRational \<Rightarrow> AVFrame \<Rightarrow> AVFrame" where
  "rescale_frame bq cq fr = fr\<lparr>pts := av_rescale_q (pts fr) bq cq\<rparr>"

definition rescale_pts :: "ptr \<Rightarrow> AVRational \<Rightarrow> AVRational \<Rightarrow> world \<Rightarrow> world" where
  "rescale_pts p bq cq w =
     (case heap w p of
        None \<Rightarrow> w
      | Some fr \<Rightarrow> w\<lparr>heap := (heap w)(p \<mapsto> rescale_frame bq cq fr)\<rparr>)"

subsection \<open>process_frame\<close>

text \<open>
  The result is the returned pointer, the session and the world. The diagnostic lines
  written to stderr are not part of the model.
\<close>

definition process_frame ::
  "LibplaceboFilter \<Rightarrow> ptr \<Rightarrow> world \<Rightarrow> ptr \<times> LibplaceboFilter \<times> world" where
  "process_frame s input_frame w =
     (let (output_frame, w1) = av_frame_alloc w in
      if output_frame = nullptr then (nullptr, s, w1)
      else
        let (ret, w2) = av_buffersrc_add_frame (buffersrc_ctx s) input_frame w1 in
        if ret < 0 then (nullptr, s, w2)
        else
          let (ret, w3) = av_buffersink_get_frame (buffersink_ctx s) output_frame w2 in
          if ret < 0 then
            (let w4 = av_frame_free output_frame w3 in
             if ret \<noteq> AVERROR EAGAIN \<and> ret \<noteq> AVERROR_EOF then (nullptr, s, w4)
             else (not_ready, s, w4))
          else
            (output_frame, s,
             rescale_pts output_frame (link_time_base w3 (buffersink_ctx s))
               (output_time_base s) w3))"

subsection \<open>flush\<close>

text \<open>
  The \<open>while (1)\<close> loop of \<open>flush\<close> ends only when an allocation fails or the sink returns a
  negative code, so it is a partial function: \<open>None\<close> is the loop that never ends. The
  result is the return code of \<open>flush\<close>, the vector \<open>processed_frames\<close> and the world.
\<close>

partial_function (option) flush_loop ::
  "LibplaceboFilter \<Rightarrow> ptr list \<Rightarrow> world \<Rightarrow> (int \<times> ptr list \<times> world) option" where
  "flush_loop s processed_frames w =
     (let (filt_frame, w1) = av_frame_alloc w in
      if filt_frame = nullptr then Some (AVERROR ENOMEM, processed_frames, w1)
      else
        let (ret, w2) = av_buffersink_get_frame (buffersink_ctx s) filt_frame w1 in
        if ret = AVERROR EAGAIN \<or> ret = AVERROR_EOF then
          Some (0, processed_frames, av_frame_free filt_frame w2)
        else if ret < 0 then
          Some (ret, processed_frames, av_frame_free filt_frame w2)
        else
          flush_loop s (processed_frames @ [filt_frame])
            (rescale_pts filt_frame (link_time_base w2 (buffersink_ctx s))
               (output_time_base s) w2))"

definition flush ::
  "LibplaceboFilter \<Rightarrow> ptr list \<Rightarrow> world \<Rightarrow> (int \<times> LibplaceboFilter \<times> ptr list \<times> world) option" where
  "flush s processed_frames w =
     (let (ret, w1) = av_buffersrc_add_frame (buffersrc_ctx s) nullptr w in
      if ret < 0 then Some (ret, s, processed_frames, w1)
      else
        case flush_loop s processed_frames w1 of
          None \<Rightarrow> None
        | Some (r, frames, w2) \<Rightarrow> Some (r, s, frames, w2))"

subsection \<open>The destructor\<close>

definition avfilter_free :: "ptr \<Rightarrow> world \<Rightarrow> world" where
  "avfilter_free p w = log_call (FilterFree p) w"

definition av_buffer_unref :: "ptr \<Rightarrow> world \<Rightarrow> world" where
  "av_buffer_unref p w = log_call (BufferUnref p) w"

definition avfilter_graph_free :: "ptr \<Rightarrow> world \<Rightarrow> world" where
  "avfilter_graph_free p w = log_call (GraphFree p) w"

definition LibplaceboFilter_dtor :: "LibplaceboFilter \<Rightarrow> world \<Rightarrow> LibplaceboFilter \<times> world" where
  "LibplaceboFilter_dtor s w =
     (let (s1, w1) =
            (if buffersrc_ctx s \<noteq> nullptr
             then (s\<lparr>buffersrc_ctx := nullptr\<rparr>, avfilter_free (buffersrc_ctx s) w)
             else (s, w));
          (s2, w2) =
            (if buffersink_ctx s1 \<noteq> nullptr
             then (s1\<lparr>buffersink_ctx := nullptr\<rparr>, avfilter_free (buffersink_ctx s1) w1)
             else (s1, w1));
          (s3, w3) =
            (if device_ctx s2 \<noteq> nullptr
             then (s2\<lparr>device_ctx := nullptr\<rparr>, av_buffer_unref (device_ctx s2) w2)
             else (s2, w2))
      in if filter_graph s3 \<noteq> nullptr
         then (s3\<lparr>filter_graph := nullptr\<rparr>, avfilter_graph_free (filter_graph s3) w3)
         else (s3, w3))"

subsection \<open>init\<close>

text \<open>
  \<open>operator/\<close> of \<open>std::filesystem::path\<close> for POSIX paths: an absolute right operand
  replaces the left one; otherwise a separator is put between the two unless the left
  operand is empty or ends with one.
\<close>

definition is_absolute :: "path \<Rightarrow> bool" where
  "is_absolute p = (case p of [] \<Rightarrow> False | c # _ \<Rightarrow> c = CHR ''/'')"

definition path_append :: "path \<Rightarrow> path \<Rightarrow> path" where
  "path_append p q =
     (if is_absolute q then q
      else if p = [] \<or> last p = CHR ''/'' then p @ q
      else p @ ''/'' @ q)"

text \<open>
  Modelled from the spec: \<open>filepath_is_readable\<close> is declared in fsutils.h and its body
  is not under src/. The spec has it decide whether a path "names a readable file"; the
  file system's answer is the field \<open>readable\<close> of the world.
\<close>

definition filepath_is_readable :: "path \<Rightarrow> world \<Rightarrow> bool \<times> world" where
  "filepath_is_readable p w = (readable w p, log_call (IsReadable p) w)"

text \<open>
  Modelled from the spec: \<open>find_resource_file\<close> is declared in fsutils.h and its body is
  not under src/. The spec's resource locator, "given a relative path fragment, returns an
  absolute readable path or fails if not found". The place where the locator looks is the
  field \<open>locator\<close> of the world; the result \<open>None\<close> is the failure, which leaves the
  function without a path for its caller.
\<close>

definition find_resource_file :: "path \<Rightarrow> world \<Rightarrow> path option \<times> world" where
  "find_resource_file p w =
     (case locator w p of
        None \<Rightarrow> None
      | Some q \<Rightarrow> if readable w q then Some q else None,
      log_call (FindResource p) w)"

text \<open>
  Modelled from the spec: \<open>init_libplacebo\<close> is declared in libplacebo.h and its body is
  not under src/. The spec's pipeline builder, "given decoder config, target dimensions,
  and a resolved shader path, returns bound graph/endpoint/device handles or fails", and a
  failure leaves "no partially-owned handles". The four handles are the out-parameters
  \<open>&filter_graph\<close>, \<open>&buffersrc_ctx\<close>, \<open>&buffersink_ctx\<close> and \<open>&device_ctx\<close> of the session.
\<close>

definition init_libplacebo ::
  "LibplaceboFilter \<Rightarrow> AVCodecContext \<Rightarrow> int \<Rightarrow> int \<Rightarrow> path \<Rightarrow> world
     \<Rightarrow> int \<times> LibplaceboFilter \<times> world" where
  "init_libplacebo s dec_ctx width height sp w =
     (case graph_builder w dec_ctx width height sp of
        BuildFailed code \<Rightarrow> (code, s, log_call (InitLibplacebo sp) w)
      | Built g src sink dev \<Rightarrow>
          (0,
           s\<lparr>filter_graph := g, buffersrc_ctx := src, buffersink_ctx := sink, device_ctx := dev\<rparr>,
           log_call (InitLibplacebo sp) w))"

text \<open>
  \<open>init\<close> has no code for a locator that fails: the failure leaves \<open>init\<close> at the call of
  \<open>find_resource_file\<close>, before the time base is stored and before the builder is called.
  The result \<open>Inl ResourceNotFound\<close> is that exit; \<open>Inr ret\<close> is the returned code.
\<close>

datatype init_failure = ResourceNotFound

definition init ::
  "LibplaceboFilter \<Rightarrow> AVCodecContext \<Rightarrow> AVCodecContext \<Rightarrow> world
     \<Rightarrow> (init_failure + int) \<times> LibplaceboFilter \<times> world" where
  "init s dec_ctx enc_ctx w =
     (let (direct, w1) = filepath_is_readable (shader_path s) w;
          (found, w2) =
            (if direct then (Some (shader_path s), w1)
             else find_resource_file (path_append ''models'' (shader_path s @ ''.glsl'')) w1)
      in case found of
           None \<Rightarrow> (Inl ResourceNotFound, s, w2)
         | Some shader_full_path \<Rightarrow>
             (let s1 = s\<lparr>output_time_base := time_base enc_ctx\<rparr>;
                  (ret, s2, w3) =
                    init_libplacebo s1 dec_ctx (output_width s1) (output_height s1)
                      shader_full_path w2
              in (Inr ret, s2, w3)))"

subsection \<open>Notions used to state the properties\<close>

text \<open>The three outcomes of \<open>process_frame\<close>, read off the returned pointer.\<close>

definition is_failure :: "ptr \<Rightarrow> bool" where
  "is_failure r = (r = nullptr)"

definition is_not_ready :: "ptr \<Rightarrow> bool" where
  "is_not_ready r = (r = not_ready)"

definition is_frame :: "world \<Rightarrow> ptr \<Rightarrow> bool" where
  "is_frame w r = (heap w r \<noteq> None)"

text \<open>
  What the next \<open>k\<close> iterations of the drain loop meet: the containers the allocator will
  hand out, the frames the sink will deliver, whether each of these iterations gets a
  container and a frame, and whether the containers are new, distinct addresses.
\<close>

definition new_ptrs :: "world \<Rightarrow> nat \<Rightarrow> ptr list" where
  "new_ptrs w k = map (\<lambda>i. alloc_oracle w (n_alloc w + i)) [0..<k]"

definition sink_frames :: "world \<Rightarrow> nat \<Rightarrow> AVFrame list" where
  "sink_frames w k = map (\<lambda>i. snd (sink_oracle w (n_sink w + i))) [0..<k]"

definition drains :: "world \<Rightarrow> nat \<Rightarrow> bool" where
  "drains w k =
     (\<forall>i \<in> {0..<k}. alloc_oracle w (n_alloc w + i) \<noteq> nullptr \<and>
                     0 \<le> fst (sink_oracle w (n_sink w + i)))"

definition fresh_ptrs :: "world \<Rightarrow> nat \<Rightarrow> bool" where
  "fresh_ptrs w k = (distinct (new_ptrs w k) \<and> (\<forall>p \<in> set (new_ptrs w k). heap w p = None))"

text \<open>One pass through the loop body of \<open>flush\<close> that appends a frame.\<close>

definition drain_step :: "LibplaceboFilter \<Rightarrow> world \<Rightarrow> world" where
  "drain_step s w =
     (let (p, w1) = av_frame_alloc w;
          (ret, w2) = av_buffersink_get_frame (buffersink_ctx s) p w1
      in rescale_pts p (link_time_base w2 (buffersink_ctx s)) (output_time_base s) w2)"

text \<open>The code \<open>flush\<close> returns when the loop stops in iteration \<open>k\<close>.\<close>

definition flush_code :: "world \<Rightarrow> nat \<Rightarrow> int" where
  "flush_code w k =
     (if alloc_oracle w (n_alloc w + k) = nullptr then AVERROR ENOMEM
      else let c = fst (sink_oracle w (n_sink w + k))
           in if c = AVERROR EAGAIN \<or> c = AVERROR_EOF then 0 else c)"

text \<open>A time base is a positive rational.\<close>

definition valid_time_base :: "AVRational \<Rightarrow> bool" where
  "valid_time_base q = (0 < num q \<and> 0 < den q)"

text \<open>The releases of the destructor as the spec lists them, each skipped for a null handle.\<close>

definition teardown_releases :: "LibplaceboFilter \<Rightarrow> call list" where
  "teardown_releases s =
     (if buffersrc_ctx s \<noteq> nullptr then [FilterFree (buffersrc_ctx s)] else []) @
     (if buffersink_ctx s \<noteq> nullptr then [FilterFree (buffersink_ctx s)] else []) @
     (if device_ctx s \<noteq> nullptr then [BufferUnref (device_ctx s)] else []) @
     (if filter_graph s \<noteq> nullptr then [GraphFree (filter_graph s)] else [])"

definition all_null :: "LibplaceboFilter \<Rightarrow> bool" where
  "all_null s =
     (filter_graph s = nullptr \<and> buffersrc_ctx s = nullptr \<and>
      buffersink_ctx s = nullptr \<and> device_ctx s = nullptr)"

definition all_bound :: "LibplaceboFilter \<Rightarrow> bool" where
  "all_bound s =
     (filter_graph s \<noteq> nullptr \<and> buffersrc_ctx s \<noteq> nullptr \<and>
      buffersink_ctx s \<noteq> nullptr \<and> device_ctx s \<noteq> nullptr)"

text \<open>A builder answer as the spec has it: a negative code, or four handles that are bound.\<close>

fun valid_build :: "build_result \<Rightarrow> bool" where
  "valid_build (BuildFailed code) = (code < 0)"
| "valid_build (Built g src sink dev) =
     (g \<noteq> nullptr \<and> src \<noteq> nullptr \<and> sink \<noteq> nullptr \<and> dev \<noteq> nullptr)"

text \<open>The path \<open>init\<close> hands to the locator when the identifier is not readable.\<close>

definition fallback_path :: "path \<Rightarrow> path" where
  "fallback_path sp = (if is_absolute sp then sp @ ''.glsl'' else ''models/'' @ sp @ ''.glsl'')"

subsection \<open>Concrete sessions and worlds\<close>

text \<open>
  A world whose oracles read their answers from lists: when a list is used up the allocator
  fails, the source accepts and the sink reports end of stream. Nothing is readable and the
  builder fails, until the fields are set otherwise.
\<close>

definition scripted_world :: "ptr list \<Rightarrow> int list \<Rightarrow> (int \<times> AVFrame) list \<Rightarrow> world" where
  "scripted_world ps cs fs =
     \<lparr>heap = Map.empty,
      alloc_oracle = (\<lambda>n. if n < length ps then ps ! n else nullptr),
      src_oracle = (\<lambda>n. if n < length cs then cs ! n else 0),
      sink_oracle = (\<lambda>n. if n < length fs then fs ! n else (AVERROR_EOF, blank_frame)),
      n_alloc = 0, n_src = 0, n_sink = 0,
      link_time_base = (\<lambda>_. \<lparr>num = 1, den = 25\<rparr>),
      readable = (\<lambda>_. False),
      locator = (\<lambda>_. None),
      graph_builder = (\<lambda>_ _ _ _. BuildFailed (AVERROR ENOMEM)),
      trace = []\<rparr>"

definition fresh_session :: "path \<Rightarrow> LibplaceboFilter" where
  "fresh_session sp = LibplaceboFilter_new \<lparr>num = 0, den = 1\<rparr> 1920 1080 sp"

definition session0 :: LibplaceboFilter where
  "session0 = (fresh_session ''anime4k'')
     \<lparr>filter_graph := 16, buffersrc_ctx := 32, buffersink_ctx := 48, device_ctx := 64,
      output_time_base := \<lparr>num = 1, den = 30\<rparr>\<rparr>"

definition frame_a :: AVFrame where
  "frame_a = \<lparr>pts = 5, payload = 1\<rparr>"

definition frame_b :: AVFrame where
  "frame_b = \<lparr>pts = 10, payload = 2\<rparr>"

definition eof_world :: world where
  "eof_world = scripted_world [4096] [0] [(AVERROR_EOF, blank_frame)]"

definition leak_world :: world where
  "leak_world = scripted_world [4096] [AVERROR ENOMEM] []"

definition reject_world :: world where
  "reject_world = scripted_world [4096] [AVERROR ENOMEM] [(0, frame_a)]"

definition drain_world :: world where
  "drain_world = scripted_world [4096, 8192, 12288] [0]
     [(0, frame_a), (0, frame_b), (AVERROR EAGAIN, blank_frame)]"

definition oom_world :: world where
  "oom_world = scripted_world [4096] [0] [(0, frame_a), (0, frame_b)]"

definition fatal_world :: world where
  "fatal_world = scripted_world [4096, 8192] [0] [(0, frame_a), (- 5, blank_frame)]"

definition fs_world :: "path list \<Rightarrow> (path \<times> path) list \<Rightarrow> build_result \<Rightarrow> world" where
  "fs_world files found b =
     (scripted_world [] [] [])
       \<lparr>readable := (\<lambda>p. p \<in> set files),
        locator := map_of found,
        graph_builder := (\<lambda>_ _ _ _. b)\<rparr>"

definition direct_fs :: "build_result \<Rightarrow> world" where
  "direct_fs b = fs_world [''anime4k''] [] b"

definition fallback_fs :: world where
  "fallback_fs =
     fs_world [''/usr/share/video2x/models/anime4k.glsl'']
       [(''models/anime4k.glsl'', ''/usr/share/video2x/models/anime4k.glsl'')]
       (Built 16 32 48 64)"

definition empty_fs :: world where
  "empty_fs = fs_world [] [] (Built 16 32 48 64)"

definition absolute_fs :: world where
  "absolute_fs =
     fs_world [''/usr/share/video2x/models//x.glsl'']
       [(''models//x.glsl'', ''/usr/share/video2x/models//x.glsl'')]
       (Built 16 32 48 64)"

definition dec0 :: AVCodecContext where
  "dec0 = \<lparr>time_base = \<lparr>num = 1, den = 25\<rparr>, codec_id = 27\<rparr>"

definition enc0 :: AVCodecContext where
  "enc0 = \<lparr>time_base = \<lparr>num = 1, den = 30\<rparr>, codec_id = 27\<rparr>"

section \<open>Properties\<close>

subsection \<open>The library calls and the error codes\<close>

lemmas ext_defs = av_frame_alloc_def av_frame_free_def av_buffersrc_add_frame_def
  av_buffersink_get_frame_def log_call_def rescale_pts_def

lemma neg_codes: "AVERROR EAGAIN < 0" "AVERROR_EOF < 0" "AVERROR ENOMEM < 0" "AVERROR EAGAIN \<noteq> AVERROR_EOF"
  by (simp_all add: AVERROR_def EAGAIN_def AVERROR_EOF_def ENOMEM_def)

lemma process_frame_session: "fst (snd (process_frame s input_frame w)) = s"
  by (simp add: process_frame_def ext_defs Let_def split: prod.splits)

lemma flush_session:
  assumes "flush s coll w = Some (r, s', coll', w')"
  shows "s' = s"
  using assms
  by (auto simp add: flush_def av_buffersrc_add_frame_def Let_def
      split: prod.splits if_splits option.splits)

subsection \<open>The drain loop\<close>

lemma flush_loop_step:
  assumes "alloc_oracle w (n_alloc w) \<noteq> nullptr" "0 \<le> fst (sink_oracle w (n_sink w))"
  shows "flush_loop s coll w = flush_loop s (coll @ [alloc_oracle w (n_alloc w)]) (drain_step s w)"
  using assms neg_codes
  by (subst flush_loop.simps) (auto simp add: drain_step_def ext_defs Let_def split: prod.splits)

lemma drain_step_props:
  assumes "alloc_oracle w (n_alloc w) \<noteq> nullptr" "0 \<le> fst (sink_oracle w (n_sink w))"
  shows "n_alloc (drain_step s w) = Suc (n_alloc w)"
    and "n_sink (drain_step s w) = Suc (n_sink w)"
    and "n_src (drain_step s w) = n_src w"
    and "alloc_oracle (drain_step s w) = alloc_oracle w"
    and "sink_oracle (drain_step s w) = sink_oracle w"
    and "src_oracle (drain_step s w) = src_oracle w"
    and "link_time_base (drain_step s w) = link_time_base w"
    and "heap (drain_step s w) = (heap w)(alloc_oracle w (n_alloc w) \<mapsto>
            rescale_frame (link_time_base w (buffersink_ctx s)) (output_time_base s) (snd (sink_oracle w (n_sink w))))"
    and "trace (drain_step s w) = trace w @ [FrameAlloc (alloc_oracle w (n_alloc w)), SinkGetFrame (buffersink_ctx s) (alloc_oracle w (n_alloc w))]"
  using assms
  by (auto simp add: drain_step_def ext_defs Let_def split: prod.splits)

lemma flush_loop_drain:
  assumes "drains w k" "fresh_ptrs w k"
  shows "\<exists>wk. flush_loop s coll w = flush_loop s (coll @ new_ptrs w k) wk
      \<and> n_alloc wk = n_alloc w + k \<and> n_sink wk = n_sink w + k \<and> n_src wk = n_src w
      \<and> alloc_oracle wk = alloc_oracle w \<and> sink_oracle wk = sink_oracle w
      \<and> link_time_base wk = link_time_base w
      \<and> map (heap wk) (new_ptrs w k) =
          map (\<lambda>fr. Some (rescale_frame (link_time_base w (buffersink_ctx s)) (output_time_base s) fr)) (sink_frames w k)
      \<and> (\<forall>q. q \<notin> set (new_ptrs w k) \<longrightarrow> heap wk q = heap w q)"
  using assms
proof (induction k)
  case 0
  show ?case by (rule exI [of _ w]) (simp add: new_ptrs_def sink_frames_def)
next
  case (Suc k)
  from Suc.prems have d: "drains w k" and f: "fresh_ptrs w k"
    by (auto simp add: drains_def fresh_ptrs_def new_ptrs_def)
  from Suc.IH [OF d f] obtain wk where
    run: "flush_loop s coll w = flush_loop s (coll @ new_ptrs w k) wk"
    and na: "n_alloc wk = n_alloc w + k" and ns: "n_sink wk = n_sink w + k" and nr: "n_src wk = n_src w"
    and ao: "alloc_oracle wk = alloc_oracle w" and so: "sink_oracle wk = sink_oracle w"
    and lt: "link_time_base wk = link_time_base w"
    and hp: "map (heap wk) (new_ptrs w k) =
          map (\<lambda>fr. Some (rescale_frame (link_time_base w (buffersink_ctx s)) (output_time_base s) fr)) (sink_frames w k)"
    and un: "\<forall>q. q \<notin> set (new_ptrs w k) \<longrightarrow> heap wk q = heap w q"
    by blast
  let ?p = "alloc_oracle w (n_alloc w + k)"
  from Suc.prems have ok: "alloc_oracle wk (n_alloc wk) \<noteq> nullptr" "0 \<le> fst (sink_oracle wk (n_sink wk))"
    by (simp_all add: drains_def na ns ao so)
  from Suc.prems have notin: "?p \<notin> set (new_ptrs w k)"
    by (auto simp add: fresh_ptrs_def new_ptrs_def)
  have np: "new_ptrs w (Suc k) = new_ptrs w k @ [?p]"
    by (simp add: new_ptrs_def)
  have sf: "sink_frames w (Suc k) = sink_frames w k @ [snd (sink_oracle w (n_sink w + k))]"
    by (simp add: sink_frames_def)
  note props = drain_step_props [OF ok, of s]
  have hp': "map (heap (drain_step s wk)) (new_ptrs w k) = map (heap wk) (new_ptrs w k)"
    using notin by (simp add: props na ao)
  show ?case
  proof (rule exI [of _ "drain_step s wk"], intro conjI)
    show "flush_loop s coll w = flush_loop s (coll @ new_ptrs w (Suc k)) (drain_step s wk)"
      using run flush_loop_step [OF ok, of s "coll @ new_ptrs w k"] by (simp add: np na ao)
    show "map (heap (drain_step s wk)) (new_ptrs w (Suc k)) =
          map (\<lambda>fr. Some (rescale_frame (link_time_base w (buffersink_ctx s)) (output_time_base s) fr)) (sink_frames w (Suc k))"
      using hp hp' by (simp add: np sf props na ns ao so lt)
    show "\<forall>q. q \<notin> set (new_ptrs w (Suc k)) \<longrightarrow> heap (drain_step s wk) q = heap w q"
      using un by (simp add: np props na ao)
  qed (simp_all add: props na ns nr ao so lt)
qed

lemma flush_loop_stop:
  assumes "alloc_oracle w (n_alloc w) = nullptr \<or> fst (sink_oracle w (n_sink w)) < 0"
  shows "\<exists>w'. flush_loop s coll w = Some (flush_code w 0, coll, w')
     \<and> heap w' = (if alloc_oracle w (n_alloc w) = nullptr then heap w
                    else (heap w)(alloc_oracle w (n_alloc w) := None))
     \<and> n_sink w' = (if alloc_oracle w (n_alloc w) = nullptr then n_sink w else Suc (n_sink w))
     \<and> n_alloc w' = Suc (n_alloc w)"
  using assms neg_codes
  by (subst flush_loop.simps)
     (auto simp add: flush_code_def ext_defs Let_def split: prod.splits)

lemma flush_run:
  assumes sub: "0 \<le> src_oracle w (n_src w)"
    and dr: "drains w k"
    and fr: "fresh_ptrs w (Suc k)"
    and stop: "alloc_oracle w (n_alloc w + k) = nullptr \<or> fst (sink_oracle w (n_sink w + k)) < 0"
  shows "\<exists>w'. flush s coll w = Some (flush_code w k, s, coll @ new_ptrs w k, w')
     \<and> map (heap w') (new_ptrs w k) =
          map (\<lambda>fr. Some (rescale_frame (link_time_base w (buffersink_ctx s)) (output_time_base s) fr))
            (sink_frames w k)
     \<and> (\<forall>q. q \<notin> set (new_ptrs w (Suc k)) \<longrightarrow> heap w' q = heap w q)
     \<and> n_sink w' = (if alloc_oracle w (n_alloc w + k) = nullptr then n_sink w + k else n_sink w + Suc k)"
proof -
  define w1 where "w1 = snd (av_buffersrc_add_frame (buffersrc_ctx s) nullptr w)"
  have w1: "n_alloc w1 = n_alloc w" "n_sink w1 = n_sink w" "alloc_oracle w1 = alloc_oracle w"
    "sink_oracle w1 = sink_oracle w" "heap w1 = heap w" "link_time_base w1 = link_time_base w"
    by (simp_all add: w1_def ext_defs)
  have fl: "flush s coll w = (case flush_loop s coll w1 of None \<Rightarrow> None
              | Some (r, frames, w2) \<Rightarrow> Some (r, s, frames, w2))"
    using sub by (simp add: flush_def w1_def av_buffersrc_add_frame_def)
  have eqs: "new_ptrs w1 = new_ptrs w" "sink_frames w1 = sink_frames w" "drains w1 = drains w"
    "fresh_ptrs w1 = fresh_ptrs w" "flush_code w1 = flush_code w"
    by (simp_all add: fun_eq_iff new_ptrs_def sink_frames_def drains_def fresh_ptrs_def flush_code_def w1)
  from fr have frk: "fresh_ptrs w k"
    by (auto simp add: fresh_ptrs_def new_ptrs_def)
  from flush_loop_drain [of w1 k s coll] dr frk obtain wk where
    run: "flush_loop s coll w1 = flush_loop s (coll @ new_ptrs w k) wk"
    and na: "n_alloc wk = n_alloc w + k" and ns: "n_sink wk = n_sink w + k"
    and ao: "alloc_oracle wk = alloc_oracle w" and so: "sink_oracle wk = sink_oracle w"
    and hp: "map (heap wk) (new_ptrs w k) =
          map (\<lambda>fr. Some (rescale_frame (link_time_base w (buffersink_ctx s)) (output_time_base s) fr)) (sink_frames w k)"
    and un: "\<forall>q. q \<notin> set (new_ptrs w k) \<longrightarrow> heap wk q = heap w q"
    by (auto simp add: eqs w1)
  let ?p = "alloc_oracle w (n_alloc w + k)"
  from stop have stop': "alloc_oracle wk (n_alloc wk) = nullptr \<or> fst (sink_oracle wk (n_sink wk)) < 0"
    by (simp add: na ns ao so)
  from flush_loop_stop [OF stop', of s "coll @ new_ptrs w k"] obtain w' where
    fin: "flush_loop s (coll @ new_ptrs w k) wk = Some (flush_code wk 0, coll @ new_ptrs w k, w')"
    and hw: "heap w' = (if ?p = nullptr then heap wk else (heap wk)(?p := None))"
    and nsw: "n_sink w' = (if ?p = nullptr then n_sink wk else Suc (n_sink wk))"
    by (auto simp add: na ao)
  have code: "flush_code wk 0 = flush_code w k"
    by (simp add: flush_code_def na ns ao so)
  from fr have notin: "?p \<notin> set (new_ptrs w k)"
    by (auto simp add: fresh_ptrs_def new_ptrs_def)
  have np: "new_ptrs w (Suc k) = new_ptrs w k @ [?p]"
    by (simp add: new_ptrs_def)
  have "map (heap w') (new_ptrs w k) = map (heap wk) (new_ptrs w k)"
    using notin by (simp add: hw)
  with hp have hp': "map (heap w') (new_ptrs w k) =
          map (\<lambda>fr. Some (rescale_frame (link_time_base w (buffersink_ctx s)) (output_time_base s) fr)) (sink_frames w k)"
    by simp
  have un': "\<forall>q. q \<notin> set (new_ptrs w (Suc k)) \<longrightarrow> heap w' q = heap w q"
    using un by (simp add: np hw)
  show ?thesis
    by (rule exI [of _ w']) (simp add: fl run fin code hp' un' nsw ns)
qed

subsection \<open>Rounding and rescaling\<close>

lemma half_div_aux:
  assumes "0 < (d::int)"
  shows "(d * k + d div 2) div d = k"
proof -
  have "(d div 2) div d = 0" using assms by (simp add: div_pos_pos_trivial)
  then show ?thesis using assms by simp
qed

lemma round_near_inf_exact:
  assumes "0 < d" "d dvd n"
  shows "round_near_inf n d = n div d"
proof -
  from assms obtain k where k: "n = d * k" by (auto simp add: dvd_def)
  have nk: "- n = d * (- k)" by (simp add: k)
  have a: "(n + d div 2) div d = k" unfolding k by (rule half_div_aux [OF assms(1)])
  have b: "(- n + d div 2) div d = - k" unfolding nk by (rule half_div_aux [OF assms(1)])
  have c: "n div d = k" using assms by (simp add: k)
  show ?thesis by (simp only: round_near_inf_def a b c) simp
qed

lemma round_near_inf_mono:
  assumes "0 < d" "n \<le> m"
  shows "round_near_inf n d \<le> round_near_inf m d"
proof -
  have nn: "0 \<le> (x + d div 2) div d" if "0 \<le> x" for x
    using that assms by (simp add: pos_imp_zdiv_nonneg_iff)
  show ?thesis
  proof (cases "0 \<le> n")
    case True
    then show ?thesis using assms by (simp add: round_near_inf_def zdiv_mono1)
  next
    case False
    show ?thesis
    proof (cases "0 \<le> m")
      case True
      have "0 \<le> (- n + d div 2) div d" using False by (intro nn) simp
      moreover have "0 \<le> (m + d div 2) div d" using True by (intro nn)
      ultimately show ?thesis using False True by (simp add: round_near_inf_def)
    next
      case mneg: False
      have "(- m + d div 2) div d \<le> (- n + d div 2) div d"
        using assms by (intro zdiv_mono1) simp_all
      then show ?thesis using False mneg by (simp add: round_near_inf_def)
    qed
  qed
qed

lemma av_rescale_q_mono:
  assumes "valid_time_base bq" "valid_time_base cq" "a \<le> b"
  shows "av_rescale_q a bq cq \<le> av_rescale_q b bq cq"
  unfolding av_rescale_q_def
  using assms by (intro round_near_inf_mono) (simp_all add: valid_time_base_def mult_right_mono)

lemma av_rescale_q_sorted:
  assumes "valid_time_base bq" "valid_time_base cq" "sorted xs"
  shows "sorted (map (\<lambda>a. av_rescale_q a bq cq) xs)"
  using assms(3)
  by (induction xs) (auto intro: av_rescale_q_mono [OF assms(1,2)])

lemma av_rescale_q_exact:
  assumes "valid_time_base bq" "valid_time_base cq" "(num cq * den bq) dvd (a * (num bq * den cq))"
  shows "av_rescale_q a bq cq * (num cq * den bq) = a * (num bq * den cq)"
  using assms by (simp add: av_rescale_q_def round_near_inf_exact valid_time_base_def)

subsection \<open>The destructor and init\<close>

lemmas dtor_defs = LibplaceboFilter_dtor_def avfilter_free_def av_buffer_unref_def
  avfilter_graph_free_def log_call_def

lemma dtor_trace: "trace (snd (LibplaceboFilter_dtor s w)) = trace w @ teardown_releases s"
  by (simp add: dtor_defs teardown_releases_def Let_def split: prod.splits)

lemma dtor_handles:
  "filter_graph (fst (LibplaceboFilter_dtor s w)) = nullptr"
  "buffersrc_ctx (fst (LibplaceboFilter_dtor s w)) = nullptr"
  "buffersink_ctx (fst (LibplaceboFilter_dtor s w)) = nullptr"
  "device_ctx (fst (LibplaceboFilter_dtor s w)) = nullptr"
  by (simp_all add: dtor_defs Let_def split: prod.splits)

lemma dtor_null:
  assumes "filter_graph s = nullptr" "buffersrc_ctx s = nullptr" "buffersink_ctx s = nullptr" "device_ctx s = nullptr"
  shows "LibplaceboFilter_dtor s w = (s, w)"
  using assms by (simp add: dtor_defs Let_def)

lemmas init_defs = init_def filepath_is_readable_def find_resource_file_def init_libplacebo_def log_call_def

lemma path_append_models: "path_append ''models'' (sp @ ''.glsl'') = fallback_path sp"
  by (cases sp) (simp_all add: path_append_def fallback_path_def is_absolute_def)

lemma init_direct:
  assumes "readable w (shader_path s)"
  shows "fst (init s dec enc w) = Inr (fst (init_libplacebo (s\<lparr>output_time_base := time_base enc\<rparr>) dec (output_width s) (output_height s) (shader_path s) w))"
   and "trace (snd (snd (init s dec enc w))) = trace w @ [IsReadable (shader_path s), InitLibplacebo (shader_path s)]"
  using assms by (auto simp add: init_defs Let_def split: prod.splits build_result.splits)

lemma init_fallback:
  assumes "\<not> readable w (shader_path s)" "locator w (fallback_path (shader_path s)) = Some q" "readable w q"
  shows "trace (snd (snd (init s dec enc w))) = trace w @ [IsReadable (shader_path s), FindResource (fallback_path (shader_path s)), InitLibplacebo q]"
  using assms by (auto simp add: init_defs path_append_models Let_def split: prod.splits build_result.splits)

lemma init_unresolved:
  assumes "\<not> readable w (shader_path s)" "fst (find_resource_file (fallback_path (shader_path s)) w) = None"
  shows "init s dec enc w = (Inl ResourceNotFound, s, w\<lparr>trace := trace w @ [IsReadable (shader_path s), FindResource (fallback_path (shader_path s))]\<rparr>)"
  using assms by (auto simp add: init_defs path_append_models Let_def split: prod.splits build_result.splits option.splits)

lemma process_frame_releases_unless_rejected:
  assumes "process_frame s input_frame w = (r, s', w')"
    and "\<not> (alloc_oracle w (n_alloc w) \<noteq> nullptr \<and> src_oracle w (n_src w) < 0)"
  shows "\<forall>q. heap w' q \<noteq> None \<longrightarrow> heap w q \<noteq> None \<or> q = r"
  using assms
  by (auto simp add: process_frame_def ext_defs Let_def split: prod.splits if_splits)

section \<open>The claims\<close>

text \<open>
  C1. Every call of \<open>process_frame\<close> returns exactly one of three outcomes: a pointer to a
  frame container that is allocated (the produced frame), the not-yet-ready sentinel
  \<open>(AVFrame *)-1\<close>, or null (failure); never two of them and never none. When the sink
  answers end-of-stream the call returns the same sentinel, and leaves the same frame
  containers and the same log of calls, as when it answers \<open>EAGAIN\<close>. The allocator is
  taken never to hand out the address \<open>-1\<close>, and no frame lives at null or at \<open>-1\<close>
  before the call.
\<close>

theorem process_frame_tristate:
  assumes "heap w nullptr = None" and "heap w not_ready = None"
    and "alloc_oracle w (n_alloc w) \<noteq> not_ready"
    and "process_frame s input_frame w = (r, s', w')"
  shows "((is_frame w' r \<and> \<not> is_not_ready r \<and> \<not> is_failure r) \<or>
          (\<not> is_frame w' r \<and> is_not_ready r \<and> \<not> is_failure r) \<or>
          (\<not> is_frame w' r \<and> \<not> is_not_ready r \<and> is_failure r)) \<and>
         (alloc_oracle w (n_alloc w) \<noteq> nullptr \<and> 0 \<le> src_oracle w (n_src w) \<and>
          (fst (sink_oracle w (n_sink w)) = AVERROR EAGAIN \<or>
           fst (sink_oracle w (n_sink w)) = AVERROR_EOF) \<longrightarrow>
            r = not_ready \<and>
            heap w' = (heap w)(alloc_oracle w (n_alloc w) := None) \<and>
            trace w' = trace w @
              [FrameAlloc (alloc_oracle w (n_alloc w)),
               SrcAddFrame (buffersrc_ctx s) input_frame,
               SinkGetFrame (buffersink_ctx s) (alloc_oracle w (n_alloc w)),
               FrameFree (alloc_oracle w (n_alloc w))])"
proof -
  have one: "(is_frame w' r \<and> \<not> is_not_ready r \<and> \<not> is_failure r) \<or>
        (\<not> is_frame w' r \<and> is_not_ready r \<and> \<not> is_failure r) \<or>
        (\<not> is_frame w' r \<and> \<not> is_not_ready r \<and> is_failure r)"
    using assms
    by (auto simp add: process_frame_def ext_defs Let_def nullptr_def not_ready_def
        is_frame_def is_not_ready_def is_failure_def split: prod.splits if_splits)
  have same: "r = not_ready \<and>
            heap w' = (heap w)(alloc_oracle w (n_alloc w) := None) \<and>
            trace w' = trace w @
              [FrameAlloc (alloc_oracle w (n_alloc w)),
               SrcAddFrame (buffersrc_ctx s) input_frame,
               SinkGetFrame (buffersink_ctx s) (alloc_oracle w (n_alloc w)),
               FrameFree (alloc_oracle w (n_alloc w))]"
    if "alloc_oracle w (n_alloc w) \<noteq> nullptr \<and> 0 \<le> src_oracle w (n_src w) \<and>
          (fst (sink_oracle w (n_sink w)) = AVERROR EAGAIN \<or>
           fst (sink_oracle w (n_sink w)) = AVERROR_EOF)"
    using that assms(4) neg_codes
    by (auto simp add: process_frame_def ext_defs Let_def split: prod.splits if_splits)
  from one same show ?thesis
    by blast
qed

theorem process_frame_tristate_witness:
  "heap eof_world nullptr = None \<and> heap eof_world not_ready = None \<and>
   alloc_oracle eof_world (n_alloc eof_world) \<noteq> not_ready \<and>
   fst (process_frame session0 7 eof_world) = not_ready \<and>
   \<not> is_failure (fst (process_frame session0 7 eof_world)) \<and>
   \<not> is_frame (snd (snd (process_frame session0 7 eof_world)))
        (fst (process_frame session0 7 eof_world))"
proof -
  let ?x = "process_frame session0 7 eof_world"
  have h1: "heap eof_world nullptr = None" and h2: "heap eof_world not_ready = None"
    by (simp_all add: eof_world_def scripted_world_def)
  have h3: "alloc_oracle eof_world (n_alloc eof_world) \<noteq> not_ready"
    by (simp add: eof_world_def scripted_world_def not_ready_def)
  have h4: "?x = (fst ?x, fst (snd ?x), snd (snd ?x))"
    by simp
  have run: "alloc_oracle eof_world (n_alloc eof_world) \<noteq> nullptr \<and>
      0 \<le> src_oracle eof_world (n_src eof_world) \<and>
      (fst (sink_oracle eof_world (n_sink eof_world)) = AVERROR EAGAIN \<or>
       fst (sink_oracle eof_world (n_sink eof_world)) = AVERROR_EOF)"
    by (simp add: eof_world_def scripted_world_def nullptr_def)
  from process_frame_tristate [OF h1 h2 h3 h4] run
  have r: "fst ?x = not_ready" and one:
    "(is_frame (snd (snd ?x)) (fst ?x) \<and> \<not> is_not_ready (fst ?x) \<and> \<not> is_failure (fst ?x)) \<or>
     (\<not> is_frame (snd (snd ?x)) (fst ?x) \<and> is_not_ready (fst ?x) \<and> \<not> is_failure (fst ?x)) \<or>
     (\<not> is_frame (snd (snd ?x)) (fst ?x) \<and> \<not> is_not_ready (fst ?x) \<and> is_failure (fst ?x))"
    by blast+
  from r have "is_not_ready (fst ?x)"
    by (simp add: is_not_ready_def)
  with one have "\<not> is_failure (fst ?x) \<and> \<not> is_frame (snd (snd ?x)) (fst ?x)"
    by blast
  with h1 h2 h3 r show ?thesis
    by blast
qed

text \<open>
  C2. The claim is that no exit path of \<open>process_frame\<close> leaks the container allocated at
  the start of the call. The exit taken when \<open>av_buffersrc_add_frame\<close> rejects the input
  frame returns null without freeing it: in \<open>leak_world\<close> the allocator hands out the
  container at address 4096 and the source answers \<open>AVERROR(ENOMEM)\<close>; the call returns
  null and the container is still allocated afterwards.
\<close>

theorem process_frame_submit_failure_leaks:
  "heap leak_world 4096 = None \<and>
   fst (process_frame session0 7 leak_world) = nullptr \<and>
   heap (snd (snd (process_frame session0 7 leak_world))) 4096 = Some blank_frame \<and>
   trace (snd (snd (process_frame session0 7 leak_world))) =
     [FrameAlloc 4096, SrcAddFrame 32 7]"
  by (simp add: process_frame_def ext_defs Let_def leak_world_def scripted_world_def
      session0_def fresh_session_def LibplaceboFilter_new_def nullptr_def AVERROR_def ENOMEM_def)

text \<open>
  C10. \<open>process_frame\<close> leaves the session as it was, whatever it returns: the target
  width and height, the shader path, the output time base and the four handles are the
  same after the call as before.
\<close>

theorem process_frame_keeps_session:
  "fst (snd (process_frame s input_frame w)) = s \<and>
   output_width (fst (snd (process_frame s input_frame w))) = output_width s \<and>
   output_height (fst (snd (process_frame s input_frame w))) = output_height s \<and>
   shader_path (fst (snd (process_frame s input_frame w))) = shader_path s \<and>
   output_time_base (fst (snd (process_frame s input_frame w))) = output_time_base s \<and>
   filter_graph (fst (snd (process_frame s input_frame w))) = filter_graph s \<and>
   buffersrc_ctx (fst (snd (process_frame s input_frame w))) = buffersrc_ctx s \<and>
   buffersink_ctx (fst (snd (process_frame s input_frame w))) = buffersink_ctx s \<and>
   device_ctx (fst (snd (process_frame s input_frame w))) = device_ctx s"
  by (simp add: process_frame_session)

text \<open>
  C7. When the submission of the end-of-input marker fails (a negative code), \<open>flush\<close>
  returns that code at once: the collector is unchanged, the sink is not asked for a frame,
  no container is allocated, and the submission is the only call made.
\<close>

theorem flush_submit_failure:
  assumes "src_oracle w (n_src w) < 0"
  shows "\<exists>w'. flush s coll w = Some (src_oracle w (n_src w), s, coll, w') \<and>
           n_sink w' = n_sink w \<and> n_alloc w' = n_alloc w \<and> heap w' = heap w \<and>
           trace w' = trace w @ [SrcAddFrame (buffersrc_ctx s) nullptr]"
  using assms by (simp add: flush_def ext_defs)

theorem flush_submit_failure_witness:
  "src_oracle reject_world (n_src reject_world) < 0 \<and>
   (\<exists>w'. flush session0 [77] reject_world = Some (- 12, session0, [77], w') \<and>
          n_sink w' = 0 \<and> n_alloc w' = 0 \<and> trace w' = [SrcAddFrame 32 0])"
  using flush_submit_failure [of reject_world session0 "[77]"]
  by (auto simp add: reject_world_def scripted_world_def AVERROR_def ENOMEM_def nullptr_def
      session0_def fresh_session_def LibplaceboFilter_new_def)

text \<open>
  C3. When the end-of-input marker is accepted, the pipeline still holds \<open>k\<close> frames and
  then reports not-yet-ready or end-of-stream, and every container the loop asks for is
  allocated at a new address, \<open>flush\<close> returns 0 and appends to the collector exactly the
  \<open>k\<close> containers, in the order of retrieval, each holding the frame the sink delivered with
  its timestamp rescaled; the loop stops at the first retrieval that reports not-yet-ready
  or end-of-stream (\<open>k + 1\<close> retrievals). With no buffered frame the collector is unchanged.
\<close>

theorem flush_drains_in_order:
  assumes "0 \<le> src_oracle w (n_src w)"
    and "drains w k"
    and "fresh_ptrs w (Suc k)"
    and "alloc_oracle w (n_alloc w + k) \<noteq> nullptr"
    and "fst (sink_oracle w (n_sink w + k)) = AVERROR EAGAIN \<or>
         fst (sink_oracle w (n_sink w + k)) = AVERROR_EOF"
  shows "\<exists>w'. flush s coll w = Some (0, s, coll @ new_ptrs w k, w') \<and>
           map (heap w') (new_ptrs w k) =
             map (\<lambda>fr. Some (rescale_frame (link_time_base w (buffersink_ctx s))
                               (output_time_base s) fr))
               (sink_frames w k) \<and>
           n_sink w' = n_sink w + Suc k \<and>
           (k = 0 \<longrightarrow> flush s coll w = Some (0, s, coll, w'))"
proof -
  from assms(5) neg_codes
  have stop: "alloc_oracle w (n_alloc w + k) = nullptr \<or> fst (sink_oracle w (n_sink w + k)) < 0"
    by auto
  from assms(4,5) have code: "flush_code w k = 0"
    by (auto simp add: flush_code_def)
  from flush_run [OF assms(1) assms(2) assms(3) stop, of s coll] obtain w' where
    "flush s coll w = Some (flush_code w k, s, coll @ new_ptrs w k, w')"
    and "map (heap w') (new_ptrs w k) =
           map (\<lambda>fr. Some (rescale_frame (link_time_base w (buffersink_ctx s))
                             (output_time_base s) fr))
             (sink_frames w k)"
    and "n_sink w' =
           (if alloc_oracle w (n_alloc w + k) = nullptr then n_sink w + k else n_sink w + Suc k)"
    by blast
  with code assms(4) show ?thesis
    by (intro exI [of _ w']) (auto simp add: new_ptrs_def)
qed

theorem flush_drains_in_order_witness:
  "0 \<le> src_oracle drain_world (n_src drain_world) \<and>
   drains drain_world (Suc (Suc 0)) \<and>
   fresh_ptrs drain_world (Suc (Suc (Suc 0))) \<and>
   (\<exists>w'. flush session0 [] drain_world = Some (0, session0, [4096, 8192], w') \<and>
          map (heap w') [4096, 8192] =
            [Some \<lparr>pts = 6, payload = 1\<rparr>, Some \<lparr>pts = 12, payload = 2\<rparr>] \<and>
          n_sink w' = 3)"
proof -
  have h1: "0 \<le> src_oracle drain_world (n_src drain_world)"
    by (simp add: drain_world_def scripted_world_def)
  have h2: "drains drain_world (Suc (Suc 0))"
    by (simp add: drains_def drain_world_def scripted_world_def nullptr_def atLeastLessThanSuc)
  have h3: "fresh_ptrs drain_world (Suc (Suc (Suc 0)))"
    by (simp add: fresh_ptrs_def new_ptrs_def drain_world_def scripted_world_def)
  have h4: "alloc_oracle drain_world (n_alloc drain_world + Suc (Suc 0)) \<noteq> nullptr"
    by (simp add: drain_world_def scripted_world_def nullptr_def)
  have h5: "fst (sink_oracle drain_world (n_sink drain_world + Suc (Suc 0))) = AVERROR EAGAIN \<or>
            fst (sink_oracle drain_world (n_sink drain_world + Suc (Suc 0))) = AVERROR_EOF"
    by (simp add: drain_world_def scripted_world_def)
  have ps: "new_ptrs drain_world (Suc (Suc 0)) = [4096, 8192]"
    by (simp add: new_ptrs_def drain_world_def scripted_world_def)
  have fs: "map (\<lambda>fr. Some (rescale_frame (link_time_base drain_world (buffersink_ctx session0))
                               (output_time_base session0) fr))
              (sink_frames drain_world (Suc (Suc 0))) =
            [Some \<lparr>pts = 6, payload = 1\<rparr>, Some \<lparr>pts = 12, payload = 2\<rparr>]"
    by (simp add: sink_frames_def drain_world_def scripted_world_def session0_def
        rescale_frame_def av_rescale_q_def round_near_inf_def frame_a_def frame_b_def)
  have ns: "n_sink drain_world = 0"
    by (simp add: drain_world_def scripted_world_def)
  from flush_drains_in_order [OF h1 h2 h3 h4 h5, of session0 "[]"] ps fs ns h1 h2 h3
  show ?thesis
    by auto
qed

text \<open>
  C9. \<open>flush\<close> does not roll the collector back on an error in the middle of draining: when
  \<open>k\<close> frames have been retrieved and then a container cannot be allocated or the sink
  reports a fatal error, \<open>flush\<close> returns the negative code (\<open>AVERROR(ENOMEM)\<close>, or the
  sink's code) and the collector is extended by exactly the \<open>k\<close> containers retrieved
  before the error, each with its rescaled frame.
\<close>

theorem flush_error_keeps_frames:
  assumes "0 \<le> src_oracle w (n_src w)"
    and "drains w k"
    and "fresh_ptrs w (Suc k)"
    and "alloc_oracle w (n_alloc w + k) = nullptr \<or>
         (fst (sink_oracle w (n_sink w + k)) < 0 \<and>
          fst (sink_oracle w (n_sink w + k)) \<noteq> AVERROR EAGAIN \<and>
          fst (sink_oracle w (n_sink w + k)) \<noteq> AVERROR_EOF)"
  shows "\<exists>w'. flush s coll w =
             Some (if alloc_oracle w (n_alloc w + k) = nullptr then AVERROR ENOMEM
                   else fst (sink_oracle w (n_sink w + k)),
                   s, coll @ new_ptrs w k, w') \<and>
           (if alloc_oracle w (n_alloc w + k) = nullptr then AVERROR ENOMEM
            else fst (sink_oracle w (n_sink w + k))) < 0 \<and>
           length (new_ptrs w k) = k \<and>
           map (heap w') (new_ptrs w k) =
             map (\<lambda>fr. Some (rescale_frame (link_time_base w (buffersink_ctx s))
                               (output_time_base s) fr))
               (sink_frames w k)"
proof -
  from assms(4)
  have stop: "alloc_oracle w (n_alloc w + k) = nullptr \<or> fst (sink_oracle w (n_sink w + k)) < 0"
    by auto
  from assms(4) have code: "flush_code w k =
      (if alloc_oracle w (n_alloc w + k) = nullptr then AVERROR ENOMEM
       else fst (sink_oracle w (n_sink w + k)))"
    by (auto simp add: flush_code_def)
  from assms(4) neg_codes have neg: "flush_code w k < 0"
    by (auto simp add: flush_code_def)
  from flush_run [OF assms(1) assms(2) assms(3) stop, of s coll] obtain w' where
    "flush s coll w = Some (flush_code w k, s, coll @ new_ptrs w k, w')"
    and "map (heap w') (new_ptrs w k) =
           map (\<lambda>fr. Some (rescale_frame (link_time_base w (buffersink_ctx s))
                             (output_time_base s) fr))
             (sink_frames w k)"
    by blast
  with code neg show ?thesis
    by (intro exI [of _ w']) (simp add: new_ptrs_def)
qed

theorem flush_error_keeps_frames_witness:
  "0 \<le> src_oracle oom_world (n_src oom_world) \<and>
   drains oom_world (Suc 0) \<and>
   fresh_ptrs oom_world (Suc (Suc 0)) \<and>
   alloc_oracle oom_world (n_alloc oom_world + Suc 0) = nullptr \<and>
   (\<exists>w'. flush session0 [77] oom_world = Some (- 12, session0, [77, 4096], w') \<and>
          heap w' 4096 = Some \<lparr>pts = 6, payload = 1\<rparr>) \<and>
   0 \<le> src_oracle fatal_world (n_src fatal_world) \<and>
   drains fatal_world (Suc 0) \<and>
   fresh_ptrs fatal_world (Suc (Suc 0)) \<and>
   fst (sink_oracle fatal_world (n_sink fatal_world + Suc 0)) = - 5 \<and>
   (\<exists>w'. flush session0 [77] fatal_world = Some (- 5, session0, [77, 4096], w') \<and>
          heap w' 4096 = Some \<lparr>pts = 6, payload = 1\<rparr>)"
proof -
  have h1: "0 \<le> src_oracle oom_world (n_src oom_world)"
    by (simp add: oom_world_def scripted_world_def)
  have h2: "drains oom_world (Suc 0)"
    by (simp add: drains_def oom_world_def scripted_world_def nullptr_def)
  have h3: "fresh_ptrs oom_world (Suc (Suc 0))"
    by (simp add: fresh_ptrs_def new_ptrs_def oom_world_def scripted_world_def nullptr_def)
  have h4: "alloc_oracle oom_world (n_alloc oom_world + Suc 0) = nullptr"
    by (simp add: oom_world_def scripted_world_def)
  have ps: "new_ptrs oom_world (Suc 0) = [4096]"
    by (simp add: new_ptrs_def oom_world_def scripted_world_def)
  have fs: "map (\<lambda>fr. Some (rescale_frame (link_time_base oom_world (buffersink_ctx session0))
                               (output_time_base session0) fr))
              (sink_frames oom_world (Suc 0)) = [Some \<lparr>pts = 6, payload = 1\<rparr>]"
    by (simp add: sink_frames_def oom_world_def scripted_world_def session0_def
        rescale_frame_def av_rescale_q_def round_near_inf_def frame_a_def)
  have code: "AVERROR ENOMEM = - 12"
    by (simp add: AVERROR_def ENOMEM_def)
  from flush_error_keeps_frames [OF h1 h2 h3 disjI1 [OF h4], of session0 "[77]"] ps fs code
  have oom: "\<exists>w'. flush session0 [77] oom_world = Some (- 12, session0, [77, 4096], w') \<and>
          heap w' 4096 = Some \<lparr>pts = 6, payload = 1\<rparr>"
    using h4 by auto
  have g1: "0 \<le> src_oracle fatal_world (n_src fatal_world)"
    by (simp add: fatal_world_def scripted_world_def)
  have g2: "drains fatal_world (Suc 0)"
    by (simp add: drains_def fatal_world_def scripted_world_def nullptr_def)
  have g3: "fresh_ptrs fatal_world (Suc (Suc 0))"
    by (simp add: fresh_ptrs_def new_ptrs_def fatal_world_def scripted_world_def)
  have g4: "fst (sink_oracle fatal_world (n_sink fatal_world + Suc 0)) = - 5"
    by (simp add: fatal_world_def scripted_world_def)
  have g5: "alloc_oracle fatal_world (n_alloc fatal_world + Suc 0) \<noteq> nullptr"
    by (simp add: fatal_world_def scripted_world_def nullptr_def)
  have g6: "fst (sink_oracle fatal_world (n_sink fatal_world + Suc 0)) < 0 \<and>
      fst (sink_oracle fatal_world (n_sink fatal_world + Suc 0)) \<noteq> AVERROR EAGAIN \<and>
      fst (sink_oracle fatal_world (n_sink fatal_world + Suc 0)) \<noteq> AVERROR_EOF"
    unfolding g4 by (simp add: AVERROR_def EAGAIN_def AVERROR_EOF_def)
  have qs: "new_ptrs fatal_world (Suc 0) = [4096]"
    by (simp add: new_ptrs_def fatal_world_def scripted_world_def)
  have gs: "map (\<lambda>fr. Some (rescale_frame (link_time_base fatal_world (buffersink_ctx session0))
                               (output_time_base session0) fr))
              (sink_frames fatal_world (Suc 0)) = [Some \<lparr>pts = 6, payload = 1\<rparr>]"
    by (simp add: sink_frames_def fatal_world_def scripted_world_def session0_def
        rescale_frame_def av_rescale_q_def round_near_inf_def frame_a_def)
  from flush_error_keeps_frames [OF g1 g2 g3 disjI2 [OF g6], of session0 "[77]"] qs gs
  have fatal: "\<exists>w'. flush session0 [77] fatal_world = Some (- 5, session0, [77, 4096], w') \<and>
          heap w' 4096 = Some \<lparr>pts = 6, payload = 1\<rparr>"
    using g4 g5 by auto
  from h1 h2 h3 h4 oom g1 g2 g3 g4 fatal show ?thesis
    by blast
qed

text \<open>
  C6. The destructor releases, in this order, the buffer source, the buffer sink, the
  device reference and the filter graph, each only when its handle is not null, and leaves
  the four handles null. It makes no other call and touches no frame container. For a
  session whose handles are all null, as the constructor leaves them, it releases nothing.
\<close>

theorem teardown_release_order:
  "trace (snd (LibplaceboFilter_dtor s w)) = trace w @ teardown_releases s \<and>
   heap (snd (LibplaceboFilter_dtor s w)) = heap w \<and>
   all_null (fst (LibplaceboFilter_dtor s w)) \<and>
   (all_bound s \<longrightarrow>
      teardown_releases s =
        [FilterFree (buffersrc_ctx s), FilterFree (buffersink_ctx s),
         BufferUnref (device_ctx s), GraphFree (filter_graph s)]) \<and>
   (all_null s \<longrightarrow> LibplaceboFilter_dtor s w = (s, w)) \<and>
   LibplaceboFilter_dtor (LibplaceboFilter_new tb width height sp) w =
     (LibplaceboFilter_new tb width height sp, w)"
proof -
  have hp: "heap (snd (LibplaceboFilter_dtor s w)) = heap w"
    by (simp add: dtor_defs Let_def split: prod.splits)
  have nul: "all_null (fst (LibplaceboFilter_dtor s w))"
    by (simp add: all_null_def dtor_handles)
  have bound: "all_bound s \<longrightarrow>
      teardown_releases s =
        [FilterFree (buffersrc_ctx s), FilterFree (buffersink_ctx s),
         BufferUnref (device_ctx s), GraphFree (filter_graph s)]"
    by (simp add: all_bound_def teardown_releases_def)
  have none: "all_null s \<longrightarrow> LibplaceboFilter_dtor s w = (s, w)"
    by (simp add: all_null_def dtor_null)
  have new: "LibplaceboFilter_dtor (LibplaceboFilter_new tb width height sp) w =
     (LibplaceboFilter_new tb width height sp, w)"
    by (rule dtor_null) (simp_all add: LibplaceboFilter_new_def)
  from dtor_trace hp nul bound none new show ?thesis
    by blast
qed

theorem teardown_release_order_witness:
  "all_bound session0 \<and>
   trace (snd (LibplaceboFilter_dtor session0 drain_world)) =
     [FilterFree 32, FilterFree 48, BufferUnref 64, GraphFree 16] \<and>
   all_null (fresh_session ''anime4k'') \<and>
   LibplaceboFilter_dtor (fresh_session ''anime4k'') drain_world =
     (fresh_session ''anime4k'', drain_world)"
proof -
  have b: "all_bound session0"
    by (simp add: all_bound_def session0_def nullptr_def)
  have n: "all_null (fresh_session ''anime4k'')"
    by (simp add: all_null_def fresh_session_def LibplaceboFilter_new_def)
  have t: "trace drain_world = []"
    by (simp add: drain_world_def scripted_world_def)
  have h: "buffersrc_ctx session0 = 32" "buffersink_ctx session0 = 48"
    "device_ctx session0 = 64" "filter_graph session0 = 16"
    by (simp_all add: session0_def)
  from teardown_release_order [of session0 drain_world] b t h
  have 1: "trace (snd (LibplaceboFilter_dtor session0 drain_world)) =
     [FilterFree 32, FilterFree 48, BufferUnref 64, GraphFree 16]"
    by simp
  from teardown_release_order [of "fresh_session ''anime4k''" drain_world] n
  have 2: "LibplaceboFilter_dtor (fresh_session ''anime4k'') drain_world =
     (fresh_session ''anime4k'', drain_world)"
    by blast
  from b n 1 2 show ?thesis
    by blast
qed

text \<open>
  C5. Every frame that \<open>process_frame\<close> returns and every frame that \<open>flush\<close> appends
  carries the timestamp the sink delivered, rescaled from the time base of the sink's input
  link to the output time base stored by \<open>init\<close>. For valid (positive) time bases the
  rescale is exact whenever \<open>dstNum * srcDen\<close> divides \<open>pts * srcNum * dstDen\<close>, and it maps
  a non-decreasing sequence of timestamps to a non-decreasing sequence.
\<close>

theorem pts_rescaled:
  "(alloc_oracle w (n_alloc w) \<noteq> nullptr \<and> 0 \<le> src_oracle w (n_src w) \<and>
    0 \<le> fst (sink_oracle w (n_sink w)) \<longrightarrow>
      fst (process_frame s input_frame w) = alloc_oracle w (n_alloc w) \<and>
      heap (snd (snd (process_frame s input_frame w))) (fst (process_frame s input_frame w)) =
        Some ((snd (sink_oracle w (n_sink w)))
          \<lparr>pts := av_rescale_q (pts (snd (sink_oracle w (n_sink w))))
                   (link_time_base w (buffersink_ctx s)) (output_time_base s)\<rparr>)) \<and>
   (0 \<le> src_oracle w (n_src w) \<and> drains w k \<and> fresh_ptrs w (Suc k) \<and>
    (alloc_oracle w (n_alloc w + k) = nullptr \<or> fst (sink_oracle w (n_sink w + k)) < 0) \<longrightarrow>
      (\<exists>ret w'. flush s coll w = Some (ret, s, coll @ new_ptrs w k, w') \<and>
         map (\<lambda>p. map_option pts (heap w' p)) (new_ptrs w k) =
           map (\<lambda>fr. Some (av_rescale_q (pts fr) (link_time_base w (buffersink_ctx s))
                             (output_time_base s)))
             (sink_frames w k))) \<and>
   (valid_time_base bq \<and> valid_time_base cq \<and>
    (num cq * den bq) dvd (a * (num bq * den cq)) \<longrightarrow>
      av_rescale_q a bq cq * (num cq * den bq) = a * (num bq * den cq)) \<and>
   (valid_time_base bq \<and> valid_time_base cq \<and> sorted xs \<longrightarrow>
      sorted (map (\<lambda>a. av_rescale_q a bq cq) xs))"
proof -
  have pf: "fst (process_frame s input_frame w) = alloc_oracle w (n_alloc w) \<and>
      heap (snd (snd (process_frame s input_frame w))) (fst (process_frame s input_frame w)) =
        Some ((snd (sink_oracle w (n_sink w)))
          \<lparr>pts := av_rescale_q (pts (snd (sink_oracle w (n_sink w))))
                   (link_time_base w (buffersink_ctx s)) (output_time_base s)\<rparr>)"
    if "alloc_oracle w (n_alloc w) \<noteq> nullptr \<and> 0 \<le> src_oracle w (n_src w) \<and>
        0 \<le> fst (sink_oracle w (n_sink w))"
    using that
    by (auto simp add: process_frame_def ext_defs rescale_frame_def Let_def split: prod.splits)
  have fl: "\<exists>ret w'. flush s coll w = Some (ret, s, coll @ new_ptrs w k, w') \<and>
         map (\<lambda>p. map_option pts (heap w' p)) (new_ptrs w k) =
           map (\<lambda>fr. Some (av_rescale_q (pts fr) (link_time_base w (buffersink_ctx s))
                             (output_time_base s)))
             (sink_frames w k)"
    if h: "0 \<le> src_oracle w (n_src w) \<and> drains w k \<and> fresh_ptrs w (Suc k) \<and>
      (alloc_oracle w (n_alloc w + k) = nullptr \<or> fst (sink_oracle w (n_sink w + k)) < 0)"
  proof -
    from h flush_run [of w k s coll] obtain w' where
      run: "flush s coll w = Some (flush_code w k, s, coll @ new_ptrs w k, w')"
      and hp: "map (heap w') (new_ptrs w k) =
           map (\<lambda>fr. Some (rescale_frame (link_time_base w (buffersink_ctx s))
                             (output_time_base s) fr))
             (sink_frames w k)"
      by blast
    have "map (\<lambda>p. map_option pts (heap w' p)) (new_ptrs w k) =
          map (map_option pts) (map (heap w') (new_ptrs w k))"
      by simp
    also have "\<dots> = map (\<lambda>fr. Some (av_rescale_q (pts fr) (link_time_base w (buffersink_ctx s))
                             (output_time_base s))) (sink_frames w k)"
      by (simp add: hp rescale_frame_def)
    finally show ?thesis
      using run by blast
  qed
  have ex: "av_rescale_q a bq cq * (num cq * den bq) = a * (num bq * den cq)"
    if "valid_time_base bq \<and> valid_time_base cq \<and>
        (num cq * den bq) dvd (a * (num bq * den cq))"
    using that av_rescale_q_exact by blast
  have mono: "sorted (map (\<lambda>a. av_rescale_q a bq cq) xs)"
    if "valid_time_base bq \<and> valid_time_base cq \<and> sorted xs"
    using that av_rescale_q_sorted by blast
  from pf fl ex mono show ?thesis
    by blast
qed


theorem pts_rescaled_witness:
  "fst (process_frame session0 7 drain_world) = 4096 \<and>
   heap (snd (snd (process_frame session0 7 drain_world))) 4096 =
     Some \<lparr>pts = 6, payload = 1\<rparr> \<and>
   (\<exists>ret w'. flush session0 [] drain_world = Some (ret, session0, [4096, 8192], w') \<and>
      map (\<lambda>p. map_option pts (heap w' p)) [4096, 8192] = [Some 6, Some 12]) \<and>
   av_rescale_q 5 \<lparr>num = 1, den = 25\<rparr> \<lparr>num = 1, den = 30\<rparr> * 25 = 150 \<and>
   sorted (map (\<lambda>a. av_rescale_q a \<lparr>num = 1, den = 25\<rparr> \<lparr>num = 1, den = 30\<rparr>) [0, 1, 2, 3, 4])"
proof -
  have h1: "alloc_oracle drain_world (n_alloc drain_world) \<noteq> nullptr \<and>
      0 \<le> src_oracle drain_world (n_src drain_world) \<and>
      0 \<le> fst (sink_oracle drain_world (n_sink drain_world))"
    by (simp add: drain_world_def scripted_world_def nullptr_def)
  have h2: "0 \<le> src_oracle drain_world (n_src drain_world) \<and>
      drains drain_world (Suc (Suc 0)) \<and> fresh_ptrs drain_world (Suc (Suc (Suc 0))) \<and>
      (alloc_oracle drain_world (n_alloc drain_world + Suc (Suc 0)) = nullptr \<or>
       fst (sink_oracle drain_world (n_sink drain_world + Suc (Suc 0))) < 0)"
    by (simp add: drains_def fresh_ptrs_def new_ptrs_def drain_world_def scripted_world_def
        nullptr_def atLeastLessThanSuc AVERROR_def EAGAIN_def)
  have h3: "valid_time_base \<lparr>num = 1, den = 25\<rparr> \<and> valid_time_base \<lparr>num = 1, den = 30\<rparr> \<and>
      (num \<lparr>num = 1, den = 30\<rparr> * den \<lparr>num = 1, den = 25\<rparr>) dvd
        (5 * (num \<lparr>num = 1, den = 25\<rparr> * den \<lparr>num = 1, den = 30\<rparr>))"
    by (simp add: valid_time_base_def)
  have h4: "valid_time_base \<lparr>num = 1, den = 25\<rparr> \<and> valid_time_base \<lparr>num = 1, den = 30\<rparr> \<and>
      sorted [0, 1, 2, 3, 4 :: int]"
    by (simp add: valid_time_base_def)
  have ps: "new_ptrs drain_world (Suc (Suc 0)) = [4096, 8192]"
    and a0: "alloc_oracle drain_world (n_alloc drain_world) = 4096"
    by (simp_all add: new_ptrs_def drain_world_def scripted_world_def)
  have fr: "(snd (sink_oracle drain_world (n_sink drain_world)))
          \<lparr>pts := av_rescale_q (pts (snd (sink_oracle drain_world (n_sink drain_world))))
                   (link_time_base drain_world (buffersink_ctx session0))
                   (output_time_base session0)\<rparr> = \<lparr>pts = 6, payload = 1\<rparr>"
    by (simp add: drain_world_def scripted_world_def session0_def frame_a_def
        av_rescale_q_def round_near_inf_def)
  have fs: "map (\<lambda>fr. Some (av_rescale_q (pts fr)
                  (link_time_base drain_world (buffersink_ctx session0))
                  (output_time_base session0)))
              (sink_frames drain_world (Suc (Suc 0))) = [Some 6, Some 12]"
    by (simp add: sink_frames_def drain_world_def scripted_world_def session0_def
        av_rescale_q_def round_near_inf_def frame_a_def frame_b_def)
  note t = pts_rescaled [of drain_world session0 7 "Suc (Suc 0)" "[]"
      "\<lparr>num = 1, den = 25\<rparr>" "\<lparr>num = 1, den = 30\<rparr>" 5 "[0, 1, 2, 3, 4]"]
  note t1 = t [THEN conjunct1, THEN mp, OF h1]
  note t2 = t [THEN conjunct2, THEN conjunct1, THEN mp, OF h2]
  note t3 = t [THEN conjunct2, THEN conjunct2, THEN conjunct1, THEN mp, OF h3]
  note t4 = t [THEN conjunct2, THEN conjunct2, THEN conjunct2, THEN mp, OF h4]
  from t1 [unfolded a0 fr] have 1: "fst (process_frame session0 7 drain_world) = 4096 \<and>
     heap (snd (snd (process_frame session0 7 drain_world))) 4096 = Some \<lparr>pts = 6, payload = 1\<rparr>"
    by auto
  from t2 [unfolded ps fs] have 2: "\<exists>ret w'. flush session0 [] drain_world =
        Some (ret, session0, [4096, 8192], w') \<and>
      map (\<lambda>p. map_option pts (heap w' p)) [4096, 8192] = [Some 6, Some 12]"
    by simp
  from t3 have 3: "av_rescale_q 5 \<lparr>num = 1, den = 25\<rparr> \<lparr>num = 1, den = 30\<rparr> * 25 = 150"
    by simp
  note 4 = t4
  from 1 2 3 4 show ?thesis
    by blast
qed

text \<open>
  C4, as stated. The claim has the fallback path \<open>models/<identifier>.glsl\<close> for every
  identifier that is not readable. For the absolute identifier \<open>/x\<close> the path that \<open>init\<close>
  hands to the locator is \<open>/x.glsl\<close>: although \<open>models//x.glsl\<close> can be located and read,
  \<open>init\<close> never asks for it, and fails.
\<close>

theorem init_fallback_absolute_counterexample:
  "\<not> readable absolute_fs (shader_path (fresh_session ''/x'')) \<and>
   fst (find_resource_file (''models/'' @ shader_path (fresh_session ''/x'') @ ''.glsl'')
         absolute_fs) = Some ''/usr/share/video2x/models//x.glsl'' \<and>
   fst (init (fresh_session ''/x'') dec0 enc0 absolute_fs) = Inl ResourceNotFound \<and>
   trace (snd (snd (init (fresh_session ''/x'') dec0 enc0 absolute_fs))) =
     [IsReadable ''/x'', FindResource ''/x.glsl'']"
  by (simp add: init_defs absolute_fs_def fs_world_def scripted_world_def fresh_session_def
      LibplaceboFilter_new_def path_append_def is_absolute_def Let_def)

text \<open>
  C4, amended. \<open>init\<close> first tests whether the shader identifier names a readable file
  and, if so, hands that path verbatim to the builder, without consulting the locator.
  Otherwise it resolves through the locator the path \<open>path("models") / (identifier +
  ".glsl")\<close>, which is \<open>models/<identifier>.glsl\<close> for a relative identifier and
  \<open><identifier>.glsl\<close> for an absolute one, and hands the located path to the builder. If
  the locator fails, \<open>init\<close> fails: the builder is not called and the session, with its
  four handles, is unchanged.
\<close>

theorem init_resolution:
  "(readable w (shader_path s) \<longrightarrow>
      trace (snd (snd (init s dec_ctx enc_ctx w))) =
        trace w @ [IsReadable (shader_path s), InitLibplacebo (shader_path s)]) \<and>
   (\<not> readable w (shader_path s) \<and>
    fst (find_resource_file (fallback_path (shader_path s)) w) = Some q \<longrightarrow>
      trace (snd (snd (init s dec_ctx enc_ctx w))) =
        trace w @ [IsReadable (shader_path s), FindResource (fallback_path (shader_path s)),
                   InitLibplacebo q]) \<and>
   (\<not> readable w (shader_path s) \<and>
    fst (find_resource_file (fallback_path (shader_path s)) w) = None \<longrightarrow>
      init s dec_ctx enc_ctx w =
        (Inl ResourceNotFound, s,
         w\<lparr>trace := trace w @ [IsReadable (shader_path s),
                                FindResource (fallback_path (shader_path s))]\<rparr>)) \<and>
   (\<not> is_absolute (shader_path s) \<longrightarrow>
      fallback_path (shader_path s) = ''models/'' @ shader_path s @ ''.glsl'') \<and>
   (is_absolute (shader_path s) \<longrightarrow> fallback_path (shader_path s) = shader_path s @ ''.glsl'')"
proof -
  have 1: "trace (snd (snd (init s dec_ctx enc_ctx w))) =
        trace w @ [IsReadable (shader_path s), InitLibplacebo (shader_path s)]"
    if "readable w (shader_path s)"
    using that by (rule init_direct)
  have 2: "trace (snd (snd (init s dec_ctx enc_ctx w))) =
        trace w @ [IsReadable (shader_path s), FindResource (fallback_path (shader_path s)),
                   InitLibplacebo q]"
    if "\<not> readable w (shader_path s) \<and>
        fst (find_resource_file (fallback_path (shader_path s)) w) = Some q"
    using that
    by (auto simp add: init_defs path_append_models Let_def
        split: prod.splits build_result.splits option.splits if_splits)
  have 3: "init s dec_ctx enc_ctx w =
        (Inl ResourceNotFound, s,
         w\<lparr>trace := trace w @ [IsReadable (shader_path s),
                                FindResource (fallback_path (shader_path s))]\<rparr>)"
    if "\<not> readable w (shader_path s) \<and>
        fst (find_resource_file (fallback_path (shader_path s)) w) = None"
    using that init_unresolved by blast
  have 4: "\<not> is_absolute (shader_path s) \<longrightarrow>
      fallback_path (shader_path s) = ''models/'' @ shader_path s @ ''.glsl''"
    and 5: "is_absolute (shader_path s) \<longrightarrow> fallback_path (shader_path s) = shader_path s @ ''.glsl''"
    by (simp_all add: fallback_path_def)
  from 1 2 3 4 5 show ?thesis
    by blast
qed

theorem init_resolution_witness:
  "trace (snd (snd (init (fresh_session ''anime4k'') dec0 enc0 (direct_fs (Built 16 32 48 64))))) =
     [IsReadable ''anime4k'', InitLibplacebo ''anime4k''] \<and>
   trace (snd (snd (init (fresh_session ''anime4k'') dec0 enc0 fallback_fs))) =
     [IsReadable ''anime4k'', FindResource ''models/anime4k.glsl'',
      InitLibplacebo ''/usr/share/video2x/models/anime4k.glsl''] \<and>
   fst (init (fresh_session ''anime4k'') dec0 enc0 empty_fs) = Inl ResourceNotFound \<and>
   fst (snd (init (fresh_session ''anime4k'') dec0 enc0 empty_fs)) = fresh_session ''anime4k'' \<and>
   fallback_path ''/x'' = ''/x.glsl''"
proof -
  let ?s = "fresh_session ''anime4k''"
  have sp: "shader_path ?s = ''anime4k''" and spx: "shader_path (fresh_session ''/x'') = ''/x''"
    by (simp_all add: fresh_session_def LibplaceboFilter_new_def)
  have fb: "fallback_path ''anime4k'' = ''models/anime4k.glsl''"
    by (simp add: fallback_path_def is_absolute_def)
  have h1: "readable (direct_fs (Built 16 32 48 64)) (shader_path ?s)"
    by (simp add: sp direct_fs_def fs_world_def)
  have h2: "\<not> readable fallback_fs (shader_path ?s) \<and>
      fst (find_resource_file (fallback_path (shader_path ?s)) fallback_fs) =
        Some ''/usr/share/video2x/models/anime4k.glsl''"
    by (simp add: sp fb fallback_fs_def fs_world_def find_resource_file_def)
  have h3: "\<not> readable empty_fs (shader_path ?s) \<and>
      fst (find_resource_file (fallback_path (shader_path ?s)) empty_fs) = None"
    by (simp add: sp fb empty_fs_def fs_world_def find_resource_file_def)
  have h4: "is_absolute (shader_path (fresh_session ''/x''))"
    by (simp add: spx is_absolute_def)
  have t0: "trace (direct_fs (Built 16 32 48 64)) = []" "trace fallback_fs = []"
    by (simp_all add: direct_fs_def fallback_fs_def fs_world_def scripted_world_def)
  note a = init_resolution [where w = "direct_fs (Built 16 32 48 64)" and s = ?s
      and dec_ctx = dec0 and enc_ctx = enc0,
      THEN conjunct1, THEN mp, OF h1]
  note b = init_resolution [where w = fallback_fs and s = ?s
      and q = "''/usr/share/video2x/models/anime4k.glsl''" and dec_ctx = dec0
      and enc_ctx = enc0, THEN conjunct2, THEN conjunct1, THEN mp, OF h2]
  note c = init_resolution [where w = empty_fs and s = ?s and dec_ctx = dec0 and enc_ctx = enc0,
      THEN conjunct2, THEN conjunct2, THEN conjunct1, THEN mp, OF h3]
  note d = init_resolution [where w = empty_fs and s = "fresh_session ''/x''",
      THEN conjunct2, THEN conjunct2, THEN conjunct2, THEN conjunct2, THEN mp, OF h4]
  from a have 1: "trace (snd (snd (init ?s dec0 enc0 (direct_fs (Built 16 32 48 64))))) =
     [IsReadable ''anime4k'', InitLibplacebo ''anime4k'']"
    by (simp add: sp t0)
  from b have 2: "trace (snd (snd (init ?s dec0 enc0 fallback_fs))) =
     [IsReadable ''anime4k'', FindResource ''models/anime4k.glsl'',
      InitLibplacebo ''/usr/share/video2x/models/anime4k.glsl'']"
    by (simp add: sp fb t0)
  from c have 3: "fst (init ?s dec0 enc0 empty_fs) = Inl ResourceNotFound \<and>
      fst (snd (init ?s dec0 enc0 empty_fs)) = ?s"
    by simp
  from d have 4: "fallback_path ''/x'' = ''/x.glsl''"
    by (simp add: spx)
  from 1 2 3 4 show ?thesis
    by blast
qed

text \<open>
  C8. For a newly constructed session and a builder that either fails with a negative
  code or delivers four handles that are bound, \<open>init\<close> ends with all four handles
  bound when it returns 0, and with all four null otherwise; \<open>process_frame\<close> and \<open>flush\<close>
  leave the session, and with it the four handles, as it was.
\<close>

theorem init_all_or_none:
  assumes "\<forall>p. valid_build (graph_builder w dec_ctx width height p)"
  shows "((fst (init (LibplaceboFilter_new tb width height sp) dec_ctx enc_ctx w) = Inr 0 \<and>
           all_bound (fst (snd (init (LibplaceboFilter_new tb width height sp) dec_ctx enc_ctx w)))) \<or>
          (fst (init (LibplaceboFilter_new tb width height sp) dec_ctx enc_ctx w) \<noteq> Inr 0 \<and>
           all_null (fst (snd (init (LibplaceboFilter_new tb width height sp) dec_ctx enc_ctx w))))) \<and>
         fst (snd (process_frame s input_frame w1)) = s \<and>
         (flush s coll w1 = Some (r, s', coll', w2) \<longrightarrow> s' = s)"
proof -
  have build: "(fst (init_libplacebo s0 dec_ctx width height p w0) = 0 \<and>
        all_bound (fst (snd (init_libplacebo s0 dec_ctx width height p w0)))) \<or>
       (fst (init_libplacebo s0 dec_ctx width height p w0) \<noteq> 0 \<and>
        all_null (fst (snd (init_libplacebo s0 dec_ctx width height p w0))))"
    if "all_null s0" and "graph_builder w0 = graph_builder w" for s0 p w0
  proof -
    from assms that(2) have "valid_build (graph_builder w0 dec_ctx width height p)"
      by simp
    with that(1) show ?thesis
      by (cases "graph_builder w0 dec_ctx width height p")
        (simp_all add: init_libplacebo_def all_null_def all_bound_def)
  qed
  let ?s0 = "LibplaceboFilter_new tb width height sp"
  have n0: "all_null ?s0" "all_null (?s0\<lparr>output_time_base := time_base enc_ctx\<rparr>)"
    by (simp_all add: all_null_def LibplaceboFilter_new_def)
  have dims: "output_width (?s0\<lparr>output_time_base := time_base enc_ctx\<rparr>) = width"
    "output_height (?s0\<lparr>output_time_base := time_base enc_ctx\<rparr>) = height"
    by (simp_all add: LibplaceboFilter_new_def)
  have gb: "graph_builder (log_call c w0) = graph_builder w0" for c w0
    by (simp add: log_call_def)
  have init: "(fst (init ?s0 dec_ctx enc_ctx w) = Inr 0 \<and>
           all_bound (fst (snd (init ?s0 dec_ctx enc_ctx w)))) \<or>
          (fst (init ?s0 dec_ctx enc_ctx w) \<noteq> Inr 0 \<and>
           all_null (fst (snd (init ?s0 dec_ctx enc_ctx w))))"
  proof (cases "readable w (shader_path ?s0)")
    case True
    with build [OF n0(2), of "log_call (IsReadable (shader_path ?s0)) w" "shader_path ?s0"]
    show ?thesis
      by (auto simp add: init_def filepath_is_readable_def dims gb Let_def split: prod.splits)
  next
    case False
    show ?thesis
    proof (cases "fst (find_resource_file (path_append ''models'' (shader_path ?s0 @ ''.glsl''))
                    (log_call (IsReadable (shader_path ?s0)) w))")
      case None
      with False n0(1) show ?thesis
        by (auto simp add: init_def filepath_is_readable_def Let_def split: prod.splits)
    next
      case (Some q)
      with False build [OF n0(2), of "snd (find_resource_file
              (path_append ''models'' (shader_path ?s0 @ ''.glsl''))
              (log_call (IsReadable (shader_path ?s0)) w))" q]
      show ?thesis
        by (auto simp add: init_def filepath_is_readable_def find_resource_file_def dims gb
            Let_def split: prod.splits)
    qed
  qed
  have fl: "flush s coll w1 = Some (r, s', coll', w2) \<longrightarrow> s' = s"
    using flush_session by blast
  from init process_frame_session fl show ?thesis
    by blast
qed

theorem init_all_or_none_witness:
  "fst (init (fresh_session ''anime4k'') dec0 enc0 (direct_fs (Built 16 32 48 64))) = Inr 0 \<and>
   all_bound (fst (snd (init (fresh_session ''anime4k'') dec0 enc0
     (direct_fs (Built 16 32 48 64))))) \<and>
   fst (init (fresh_session ''anime4k'') dec0 enc0 (direct_fs (BuildFailed (- 12)))) = Inr (- 12) \<and>
   all_null (fst (snd (init (fresh_session ''anime4k'') dec0 enc0
     (direct_fs (BuildFailed (- 12))))))"
proof -
  have h1: "\<forall>p. valid_build (graph_builder (direct_fs (Built 16 32 48 64)) dec0 1920 1080 p)"
    by (simp add: direct_fs_def fs_world_def nullptr_def)
  have h2: "\<forall>p. valid_build (graph_builder (direct_fs (BuildFailed (- 12))) dec0 1920 1080 p)"
    by (simp add: direct_fs_def fs_world_def)
  have c1: "fst (init (fresh_session ''anime4k'') dec0 enc0 (direct_fs (Built 16 32 48 64))) = Inr 0"
    by (simp add: init_defs direct_fs_def fs_world_def scripted_world_def fresh_session_def
        LibplaceboFilter_new_def Let_def)
  have c2: "fst (init (fresh_session ''anime4k'') dec0 enc0 (direct_fs (BuildFailed (- 12)))) =
      Inr (- 12)"
    by (simp add: init_defs direct_fs_def fs_world_def scripted_world_def fresh_session_def
        LibplaceboFilter_new_def Let_def)
  from init_all_or_none [OF h1, where tb = "\<lparr>num = 0, den = 1\<rparr>" and sp = "''anime4k''"
      and enc_ctx = enc0] c1
  have 1: "all_bound (fst (snd (init (fresh_session ''anime4k'') dec0 enc0
     (direct_fs (Built 16 32 48 64)))))"
    by (simp add: fresh_session_def)
  from init_all_or_none [OF h2, where tb = "\<lparr>num = 0, den = 1\<rparr>" and sp = "''anime4k''"
      and enc_ctx = enc0] c2
  have 2: "all_null (fst (snd (init (fresh_session ''anime4k'') dec0 enc0
     (direct_fs (BuildFailed (- 12))))))"
    by (simp add: fresh_session_def)
  from c1 c2 1 2 show ?thesis
    by blast
qed

end
